theory Spec2Isabelle
  imports Main
begin

section \<open>The transfer agent \<^verbatim>\<open>local_lfs_to_gcs.py\<close>\<close>

text \<open>
  The agent reads newline-delimited JSON events from standard input, talks to Google
  Cloud Storage over HTTP and answers on standard output. Everything outside the
  process is a parameter of the model (\<open>platform\<close>): the environment, the JSON parser
  of the standard library, the HTTP library, the \<^verbatim>\<open>gcloud\<close> tool. Everything the process
  changes is the \<open>state\<close>: the files, the two output streams, and the list of calls it
  made to the outside, which also serves as the clock of the outside world.
\<close>

subsection \<open>Values\<close>

type_synonym bytes = string

text \<open>
  What \<^verbatim>\<open>json.loads\<close> returns. A float keeps its literal: the agent never computes with
  one. The pairs of a \<open>JObj\<close> are the items of the Python dictionary, so their keys are
  distinct.
\<close>

datatype json =
    JNull
  | JBool bool
  | JInt int
  | JFloat string
  | JStr string
  | JArr "json list"
  | JObj "(string \<times> json) list"

text \<open>
  The exceptions that can travel through the agent. \<open>RuntimeError\<close> and
  \<open>JSONDecodeError\<close> carry their message, which the source builds or prints;
  \<open>OtherError\<close> is any exception of a library that is none of the others.
\<close>

datatype exn =
    RuntimeError string
  | JSONDecodeError string
  | AttributeError
  | TypeError
  | FileNotFoundError
  | OtherError string

type_synonym headers = "(string \<times> string) list"

datatype http_request =
    GET string headers
  | POST string headers bytes

text \<open>
  A \<^verbatim>\<open>requests.Response\<close>: \<open>content\<close> is the body, \<open>resp_text\<close> is \<^verbatim>\<open>response.text\<close>
  and \<open>resp_json\<close> is the outcome of \<^verbatim>\<open>response.json()\<close>, which raises on a body that is
  not JSON.
\<close>

record http_response =
  status_code :: int
  content :: bytes
  resp_text :: string
  resp_json :: "exn + json"

text \<open>The \<^verbatim>\<open>CompletedProcess\<close> of \<^verbatim>\<open>subprocess.run\<close>.\<close>

record completed_process =
  returncode :: int
  proc_stdout :: string
  proc_stderr :: string

datatype call =
    Getenv string
  | Request http_request
  | Run "string list"

text \<open>
  The outside world. The HTTP service and the credential tool may answer differently
  at different times: they take the number of calls made so far. \<open>py_str\<close> is Python's
  \<^verbatim>\<open>str()\<close> on the JSON values whose rendering is not written out below (floats, lists,
  dictionaries). \<open>open_error\<close> is the exception that opening a path for writing raises,
  if any (a directory, a missing parent directory, no permission); \<open>write_error\<close> is
  the exception that a write to a path raises at a given offset, if any (a full disk).
\<close>

record platform =
  environ :: "string \<rightharpoonup> string"
  json_loads :: "string \<Rightarrow> exn + json"
  py_str :: "json \<Rightarrow> string"
  requests :: "nat \<Rightarrow> http_request \<Rightarrow> http_response"
  subprocess_run :: "nat \<Rightarrow> string list \<Rightarrow> completed_process"
  open_error :: "string \<Rightarrow> exn option"
  write_error :: "string \<Rightarrow> nat \<Rightarrow> exn option"

text \<open>
  The process state. \<open>stdout\<close> holds one JSON value per line written: the source writes
  \<^verbatim>\<open>json.dumps(v) + "\n"\<close> every time, and the list keeps \<open>v\<close>. \<open>stderr\<close> holds the
  strings written, one per \<^verbatim>\<open>sys.stderr.write\<close>. \<open>files\<close> is the file system as a map
  from paths to contents; whether a path can be opened and written is the platform's.
\<close>

record state =
  files :: "string \<rightharpoonup> bytes"
  stdout :: "json list"
  stderr :: "string list"
  calls :: "call list"

type_synonym 'a result = "(exn + 'a) \<times> state"

subsection \<open>Python's string operations\<close>

definition digit_char :: "nat \<Rightarrow> char" where
  "digit_char d = ''0123456789'' ! (d mod 10)"

fun str_nat :: "nat \<Rightarrow> string" where
  "str_nat n = (if n < 10 then [digit_char n] else str_nat (n div 10) @ [digit_char n])"

declare str_nat.simps [simp del]

definition str_int :: "int \<Rightarrow> string" where
  "str_int i = (if i < 0 then ''-'' @ str_nat (nat (- i)) else str_nat (nat i))"

text \<open>\<^verbatim>\<open>str(v)\<close>, as an f-string and \<^verbatim>\<open>str.format\<close> render a value.\<close>

definition str_json :: "platform \<Rightarrow> json \<Rightarrow> string" where
  "str_json P v =
     (case v of
        JStr s \<Rightarrow> s
      | JNull \<Rightarrow> ''None''
      | JBool b \<Rightarrow> (if b then ''True'' else ''False'')
      | JInt i \<Rightarrow> str_int i
      | _ \<Rightarrow> py_str P v)"

text \<open>\<^verbatim>\<open>os.getenv\<close> returns \<^verbatim>\<open>None\<close> for a variable that is not set.\<close>

definition str_env :: "string option \<Rightarrow> string" where
  "str_env b = (case b of None \<Rightarrow> ''None'' | Some v \<Rightarrow> v)"

text \<open>
  \<^verbatim>\<open>bytes.strip()\<close> removes ASCII whitespace; \<^verbatim>\<open>str.strip()\<close> removes what
  \<^verbatim>\<open>str.isspace\<close> accepts (here: below code point 256).
\<close>

definition bytes_space :: "char \<Rightarrow> bool" where
  "bytes_space c = (c \<in> set [CHR 0x09, CHR 0x0A, CHR 0x0B, CHR 0x0C, CHR 0x0D, CHR 0x20])"

definition str_space :: "char \<Rightarrow> bool" where
  "str_space c = (bytes_space c \<or> c \<in> set [CHR 0x1C, CHR 0x1D, CHR 0x1E, CHR 0x1F, CHR 0x85, CHR 0xA0])"

definition strip_with :: "(char \<Rightarrow> bool) \<Rightarrow> string \<Rightarrow> string" where
  "strip_with ws s = rev (dropWhile ws (rev (dropWhile ws s)))"

definition bytes_strip :: "bytes \<Rightarrow> bytes" where
  "bytes_strip = strip_with bytes_space"

definition str_strip :: "string \<Rightarrow> string" where
  "str_strip = strip_with str_space"

text \<open>\<^verbatim>\<open>dict.get(key)\<close>: \<^verbatim>\<open>None\<close> for a missing key.\<close>

definition dict_get :: "(string \<times> json) list \<Rightarrow> string \<Rightarrow> json" where
  "dict_get kvs k = (case map_of kvs k of None \<Rightarrow> JNull | Some v \<Rightarrow> v)"

text \<open>\<^verbatim>\<open>posixpath.join\<close>: a component that starts with a slash discards what came before.\<close>

definition join_step :: "string \<Rightarrow> string \<Rightarrow> string" where
  "join_step path b =
     (if b \<noteq> [] \<and> hd b = CHR ''/'' then b
      else if path = [] \<or> last path = CHR ''/'' then path @ b
      else path @ ''/'' @ b)"

definition os_path_join :: "string \<Rightarrow> string list \<Rightarrow> string" where
  "os_path_join a p = foldl join_step a p"

subsection \<open>Effects\<close>

definition stderr_write :: "string \<Rightarrow> state \<Rightarrow> state" where
  "stderr_write msg s = s\<lparr>stderr := stderr s @ [msg]\<rparr>"

definition stdout_write_json :: "json \<Rightarrow> state \<Rightarrow> state" where
  "stdout_write_json v s = s\<lparr>stdout := stdout s @ [v]\<rparr>"

definition os_getenv :: "platform \<Rightarrow> string \<Rightarrow> state \<Rightarrow> string option \<times> state" where
  "os_getenv P name s = (environ P name, s\<lparr>calls := calls s @ [Getenv name]\<rparr>)"

definition http_call :: "platform \<Rightarrow> http_request \<Rightarrow> state \<Rightarrow> http_response \<times> state" where
  "http_call P req s = (requests P (length (calls s)) req, s\<lparr>calls := calls s @ [Request req]\<rparr>)"

text \<open>
  \<^verbatim>\<open>open(path, "wb")\<close>: raises for the empty path, and whenever the platform refuses the
  path; otherwise the file exists and is empty afterwards.
\<close>

definition open_wb :: "platform \<Rightarrow> string \<Rightarrow> state \<Rightarrow> unit result" where
  "open_wb P path s =
     (if path = [] then (Inl FileNotFoundError, s)
      else case open_error P path of
             Some e \<Rightarrow> (Inl e, s)
           | None \<Rightarrow> (Inr (), s\<lparr>files := (files s)(path \<mapsto> [])\<rparr>))"

text \<open>
  \<^verbatim>\<open>file_data.write(chunk)\<close>: appends the chunk, unless the platform fails the write at
  this offset; the file then stays as the earlier chunks left it.
\<close>

definition file_write :: "platform \<Rightarrow> string \<Rightarrow> bytes \<Rightarrow> state \<Rightarrow> unit result" where
  "file_write P path chunk s =
     (let old = (case files s path of None \<Rightarrow> [] | Some d \<Rightarrow> d)
      in case write_error P path (length old) of
           Some e \<Rightarrow> (Inl e, s)
         | None \<Rightarrow> (Inr (), s\<lparr>files := (files s)(path \<mapsto> old @ chunk)\<rparr>))"

definition os_path_getsize :: "string \<Rightarrow> state \<Rightarrow> exn + int" where
  "os_path_getsize path s =
     (case files s path of None \<Rightarrow> Inl FileNotFoundError | Some d \<Rightarrow> Inr (int (length d)))"

text \<open>
  \<^verbatim>\<open>response.iter_content(chunk_size)\<close> of the HTTP library: the body in pieces of
  \<open>chunk_size\<close> bytes, the last one possibly shorter. The agent only calls it with 8192.
\<close>

function iter_content :: "nat \<Rightarrow> bytes \<Rightarrow> bytes list" where
  "iter_content chunk_size body =
     (if chunk_size = 0 \<or> body = [] then []
      else take chunk_size body # iter_content chunk_size (drop chunk_size body))"
  by pat_completeness auto
termination
  by (relation "measure (\<lambda>(n, body). length body)") auto

declare iter_content.simps [simp del]

subsection \<open>The source, function by function\<close>

definition get_temporary_path :: "string \<Rightarrow> string" where
  "get_temporary_path oid =
     (let base_dir = ''.git/lfs/objects'';
          subdir = os_path_join (take 2 oid) [take 2 (drop 2 oid)]
      in os_path_join base_dir [subdir, oid])"

definition public_url :: "string \<Rightarrow> string \<Rightarrow> string" where
  "public_url bucket object_name =
     ''https://storage.googleapis.com/'' @ bucket @ ''/PIFSC%2FSOD%2Fgit_lfs_test%2F'' @ object_name"

definition private_url :: "string \<Rightarrow> string \<Rightarrow> string" where
  "private_url bucket object_name =
     ''https://storage.googleapis.com/storage/v1/b/'' @ bucket
       @ ''/o/PIFSC%2FSOD%2Fgit_lfs_test%2F'' @ object_name @ ''?alt=media''"

definition upload_url :: "string \<Rightarrow> string \<Rightarrow> string" where
  "upload_url bucket object_name =
     ''https://storage.googleapis.com/upload/storage/v1/b/'' @ bucket
       @ ''/o?uploadType=media&name=PIFSC%2FSOD%2Fgit_lfs_test%2F'' @ object_name"

text \<open>
  \<open>_write_to_file\<close>: the loop over the chunks, then the function itself. An exception of
  \<^verbatim>\<open>open\<close> or of a write leaves the function; the \<^verbatim>\<open>with\<close> block only closes the file.
\<close>

fun write_chunks :: "platform \<Rightarrow> string \<Rightarrow> bytes list \<Rightarrow> state \<Rightarrow> unit result" where
  "write_chunks P path [] s = (Inr (), s)"
| "write_chunks P path (chunk # chunks) s =
     (if chunk \<noteq> [] then
        (case file_write P path chunk s of
           (Inl e, s') \<Rightarrow> (Inl e, s')
         | (Inr u, s') \<Rightarrow> write_chunks P path chunks s')
      else write_chunks P path chunks s)"

definition write_to_file :: "platform \<Rightarrow> http_response \<Rightarrow> string \<Rightarrow> state \<Rightarrow> unit result" where
  "write_to_file P response destination_path s =
     (case open_wb P destination_path s of
        (Inl e, s') \<Rightarrow> (Inl e, s')
      | (Inr u, s') \<Rightarrow> write_chunks P destination_path (iter_content 8192 (content response)) s')"

definition gcloud_args :: "string list" where
  "gcloud_args = [''gcloud'', ''auth'', ''print-access-token'']"

definition get_access_token :: "platform \<Rightarrow> state \<Rightarrow> string result" where
  "get_access_token P s =
     (let result = subprocess_run P (length (calls s)) gcloud_args;
          s1 = s\<lparr>calls := calls s @ [Run gcloud_args]\<rparr>
      in if returncode result \<noteq> 0
         then (Inl (RuntimeError (''Error fetching access token: '' @ proc_stderr result)), s1)
         else (Inr (str_strip (proc_stdout result)), s1))"

definition download_complete :: "json \<Rightarrow> json \<Rightarrow> json" where
  "download_complete object_name destination_path =
     JObj [(''event'', JStr ''complete''), (''oid'', object_name), (''path'', destination_path)]"

definition download_error :: "http_response \<Rightarrow> exn" where
  "download_error response =
     RuntimeError (''Error downloading file: '' @ str_int (status_code response) @ '' ''
       @ resp_text response)"

text \<open>
  \<open>download\<close>. The public GET goes out before \<open>get_temporary_path\<close> slices the oid, so
  an oid that is not a string fails after the first request, whatever its status: the
  slice or \<^verbatim>\<open>os.path.join\<close> raises, shown as \<open>TypeError\<close>. \<^verbatim>\<open>open\<close> of a destination that
  is not a string is shown as \<open>TypeError\<close> too; this is what Python does for \<^verbatim>\<open>None\<close>, a
  float, a list and a dictionary, while an integer would be taken as a file descriptor,
  which the model does not have.
\<close>

definition download :: "platform \<Rightarrow> string option \<Rightarrow> json \<Rightarrow> json \<Rightarrow> state \<Rightarrow> unit result" where
  "download P bucket object_name destination_path s =
     (let pub = public_url (str_env bucket) (str_json P object_name);
          priv = private_url (str_env bucket) (str_json P object_name);
          (response, s1) = http_call P (GET pub []) s
      in case object_name of
           JStr oid \<Rightarrow>
             (let temp_path = get_temporary_path oid
              in if status_code response = 200 then
                   (case write_to_file P response temp_path s1 of
                      (Inl e, s2) \<Rightarrow> (Inl e, s2)
                    | (Inr u, s2) \<Rightarrow>
                        (Inr (), stdout_write_json
                                   (download_complete object_name destination_path) s2))
                 else if status_code response = 403 then
                   (case get_access_token P s1 of
                      (Inl e, s2) \<Rightarrow> (Inl e, s2)
                    | (Inr token, s2) \<Rightarrow>
                        (let hdrs = [(''Authorization'', ''Bearer '' @ token)];
                             (response2, s3) = http_call P (GET priv hdrs) s2
                         in if status_code response2 = 200 then
                              (case destination_path of
                                 JStr p \<Rightarrow>
                                   (case write_to_file P response2 p s3 of
                                      (Inl e, s4) \<Rightarrow> (Inl e, s4)
                                    | (Inr u, s4) \<Rightarrow>
                                        (Inr (), stdout_write_json
                                                   (download_complete object_name
                                                      destination_path) s4))
                               | _ \<Rightarrow> (Inl TypeError, s3))
                            else (Inl (download_error response2), s3)))
                 else (Inl (download_error response), s1))
         | _ \<Rightarrow> (Inl TypeError, s1))"

definition handle_download :: "platform \<Rightarrow> (string \<times> json) list \<Rightarrow> state \<Rightarrow> unit result" where
  "handle_download P payload s =
     (let oid = dict_get payload ''oid'';
          path = dict_get payload ''path'';
          (bucket, s1) = os_getenv P ''GCS_BUCKET'' s;
          s2 = stderr_write (''Handling download for OID: '' @ str_json P oid @ '', Path: ''
                 @ str_json P path @ ''\<newline>'') s1
      in download P bucket oid path s2)"

definition handle_init :: "platform \<Rightarrow> (string \<times> json) list \<Rightarrow> state \<Rightarrow> unit result" where
  "handle_init P payload s =
     (let s1 = stderr_write (''Handling init: '' @ str_json P (JObj payload) @ ''\<newline>'') s;
          s2 = stdout_write_json (JObj [(''event'', JStr ''init'')]) s1
      in (Inr (), stderr_write ''Init event processed and response flushed\<newline>'' s2))"

definition handle_terminate :: "platform \<Rightarrow> (string \<times> json) list \<Rightarrow> state \<Rightarrow> unit result" where
  "handle_terminate P payload s =
     (let s1 = stderr_write ''Handling terminate event\<newline>'' s;
          s2 = stdout_write_json (JObj [(''event'', JStr ''terminate'')]) s1
      in (Inr (), stderr_write ''Terminate event processed\<newline>'' s2))"

definition upload_complete :: "json \<Rightarrow> int \<Rightarrow> json" where
  "upload_complete object_name nbytes =
     JObj [(''event'', JStr ''complete''), (''oid'', object_name), (''size'', JInt nbytes)]"

definition str_response :: "http_response \<Rightarrow> string" where
  "str_response response = ''<Response ['' @ str_int (status_code response) @ '']>''"

definition upload :: "platform \<Rightarrow> string option \<Rightarrow> json \<Rightarrow> json \<Rightarrow> state \<Rightarrow> unit result" where
  "upload P bucket object_name file_path s =
     (let s1 = stderr_write ''uploading file'' s;
          url = upload_url (str_env bucket) (str_json P object_name)
      in case get_access_token P s1 of
           (Inl e, s2) \<Rightarrow> (Inl e, s2)
         | (Inr token, s2) \<Rightarrow>
             (let hdrs = [(''Content-Type'', ''application/octet-stream''),
                          (''Authorization'', ''Bearer '' @ token)]
              in case file_path of
                   JStr p \<Rightarrow>
                     (case files s2 p of
                        None \<Rightarrow> (Inl FileNotFoundError, s2)
                      | Some file_data \<Rightarrow>
                          (let (response, s3) = http_call P (POST url hdrs file_data) s2;
                               s4 = stderr_write (''response received: '' @ str_response response) s3
                           in if status_code response = 200 then
                                (let s5 = stderr_write ''completing upload event'' s4
                                 in case resp_json response of
                                      Inl e \<Rightarrow> (Inl e, s5)
                                    | Inr j \<Rightarrow>
                                        (let s6 = stderr_write (str_json P j) s5
                                         in case os_path_getsize p s6 of
                                              Inl e \<Rightarrow> (Inl e, s6)
                                            | Inr nbytes \<Rightarrow>
                                                (Inr (), stderr_write ''upload event concluded''
                                                   (stdout_write_json
                                                      (upload_complete object_name nbytes) s6))))
                              else (Inl (RuntimeError (''Error uploading file: ''
                                      @ str_int (status_code response) @ '' ''
                                      @ resp_text response)), s4)))
                 | _ \<Rightarrow> (Inl TypeError, s2)))"

definition handle_upload :: "platform \<Rightarrow> (string \<times> json) list \<Rightarrow> state \<Rightarrow> unit result" where
  "handle_upload P payload s =
     (let oid = dict_get payload ''oid'';
          path = dict_get payload ''path'';
          (bucket, s1) = os_getenv P ''GCS_BUCKET'' s;
          s2 = stderr_write (''Handling upload for OID: '' @ str_json P oid @ '', Path: ''
                 @ str_json P path @ ''\<newline>'') s1
      in upload P bucket oid path s2)"

text \<open>\<open>process_event\<close>: \<^verbatim>\<open>payload.get\<close> exists on a dictionary only.\<close>

definition process_event :: "platform \<Rightarrow> json \<Rightarrow> state \<Rightarrow> unit result" where
  "process_event P payload s =
     (case payload of
        JObj kvs \<Rightarrow>
          (let event = dict_get kvs ''event'';
               s1 = stderr_write (''Processing event: '' @ str_json P event @ ''\<newline>'') s
           in if event = JStr ''init'' then handle_init P kvs s1
              else if event = JStr ''upload'' then handle_upload P kvs s1
              else if event = JStr ''download'' then handle_download P kvs s1
              else if event = JStr ''terminate'' then handle_terminate P kvs s1
              else (Inr (), stderr_write (''Unsupported event: '' @ str_json P event @ ''\<newline>'') s1))
      | _ \<Rightarrow> (Inl AttributeError, s))"

text \<open>
  The loop of \<open>handle_request\<close> over the lines of standard input, up to its end. The
  \<^verbatim>\<open>try\<close> covers the parse and the handling of the event, and catches
  \<^verbatim>\<open>json.JSONDecodeError\<close> only: any other exception leaves the loop and the coroutine.
\<close>

definition decode_failed :: "string \<Rightarrow> state \<Rightarrow> unit result" where
  "decode_failed msg s = (Inr (), stderr_write (''Error decoding JSON: '' @ msg @ ''\<newline>'') s)"

fun read_loop :: "platform \<Rightarrow> bytes list \<Rightarrow> state \<Rightarrow> unit result" where
  "read_loop P [] s = (Inr (), s)"
| "read_loop P (line # rest) s =
     (if bytes_strip line = [] then read_loop P rest s
      else case json_loads P (bytes_strip line) of
             Inl (JSONDecodeError msg) \<Rightarrow> decode_failed msg s
           | Inl e \<Rightarrow> (Inl e, s)
           | Inr payload \<Rightarrow>
               (case process_event P payload s of
                  (Inl (JSONDecodeError msg), s') \<Rightarrow> decode_failed msg s'
                | (Inl e, s') \<Rightarrow> (Inl e, s')
                | (Inr u, s') \<Rightarrow> read_loop P rest s'))"

definition handle_request :: "platform \<Rightarrow> bytes list \<Rightarrow> state \<Rightarrow> unit result" where
  "handle_request P lines s = read_loop P lines (stderr_write ''Transfer agent started\<newline>'' s)"

text \<open>
  The script's main block. After \<^verbatim>\<open>asyncio.run\<close> returns, the source calls
  \<^verbatim>\<open>sys.stderr("finished\n")\<close>: the stream object is not callable, so this raises
  \<open>TypeError\<close>.
\<close>

definition main :: "platform \<Rightarrow> bytes list \<Rightarrow> state \<Rightarrow> unit result" where
  "main P lines s =
     (case handle_request P lines (stderr_write ''Transferring\<newline>'' s) of
        (Inl e, s') \<Rightarrow> (Inl e, s')
      | (Inr u, s') \<Rightarrow> (Inl TypeError, s'))"

text \<open>The interpreter's exit status: 1 when an exception reaches the top, 0 otherwise.\<close>

definition exit_code :: "unit result \<Rightarrow> int" where
  "exit_code r = (case fst r of Inl e \<Rightarrow> 1 | Inr u \<Rightarrow> 0)"

subsection \<open>Observations on the calls made\<close>

text \<open>
  The reads of the environment among the calls, the calls a run added to the list, and
  the test for an authenticated GET: a GET that carries an \<^verbatim>\<open>Authorization\<close> header.
\<close>

definition is_getenv :: "call \<Rightarrow> bool" where
  "is_getenv c = (case c of Getenv name \<Rightarrow> True | _ \<Rightarrow> False)"

definition env_reads :: "state \<Rightarrow> call list" where
  "env_reads s = filter is_getenv (calls s)"

definition is_authenticated_get :: "call \<Rightarrow> bool" where
  "is_authenticated_get c =
     (case c of
        Request (GET url hdrs) \<Rightarrow> map_of hdrs ''Authorization'' \<noteq> None
      | _ \<Rightarrow> False)"

definition new_calls :: "state \<Rightarrow> state \<Rightarrow> call list" where
  "new_calls s s' = drop (length (calls s)) (calls s')"

text \<open>
  The platform lets a body be written to a path: the path is not empty, opening it
  succeeds, and so does the write of every chunk at the offset where it lands.
\<close>

fun writes_ok :: "platform \<Rightarrow> string \<Rightarrow> nat \<Rightarrow> bytes list \<Rightarrow> bool" where
  "writes_ok P path offset [] = True"
| "writes_ok P path offset (chunk # chunks) =
     (if chunk \<noteq> [] then
        write_error P path offset = None \<and> writes_ok P path (offset + length chunk) chunks
      else writes_ok P path offset chunks)"

definition can_write :: "platform \<Rightarrow> string \<Rightarrow> bytes \<Rightarrow> bool" where
  "can_write P path body =
     (path \<noteq> [] \<and> open_error P path = None \<and> writes_ok P path 0 (iter_content 8192 body))"

subsection \<open>A sample world\<close>

text \<open>
  Concrete inputs for the closed theorems below: four protocol lines with the values
  \<^verbatim>\<open>json.loads\<close> gives for them (every other document is rejected, as the empty one
  is), an object store that answers by kind of request, and the two outcomes of the
  credential tool. Every path but the empty one can be opened and written.
\<close>

definition terminate_line :: bytes where
  \<open>terminate_line = ''{"event":"terminate"}\<newline>''\<close>

definition download_line :: bytes where
  \<open>download_line = ''{"event":"download","oid":"ab12cd34","path":"/tmp/out"}\<newline>''\<close>

definition upload_line :: bytes where
  \<open>upload_line = ''{"event":"upload","oid":"x","path":"/tmp/f"}\<newline>''\<close>

definition ping_line :: bytes where
  \<open>ping_line = ''{"event":"ping"}\<newline>''\<close>

definition terminate_event :: "(string \<times> json) list" where
  "terminate_event = [(''event'', JStr ''terminate'')]"

definition download_event :: "(string \<times> json) list" where
  "download_event =
     [(''event'', JStr ''download''), (''oid'', JStr ''ab12cd34''), (''path'', JStr ''/tmp/out'')]"

definition upload_event :: "(string \<times> json) list" where
  "upload_event = [(''event'', JStr ''upload''), (''oid'', JStr ''x''), (''path'', JStr ''/tmp/f'')]"

definition ping_event :: "(string \<times> json) list" where
  "ping_event = [(''event'', JStr ''ping'')]"

definition download_event_without_oid :: "(string \<times> json) list" where
  "download_event_without_oid = [(''event'', JStr ''download''), (''path'', JStr ''/tmp/out'')]"

definition demo_loads :: "string \<Rightarrow> exn + json" where
  "demo_loads doc =
     (if doc = bytes_strip terminate_line then Inr (JObj terminate_event)
      else if doc = bytes_strip download_line then Inr (JObj download_event)
      else if doc = bytes_strip upload_line then Inr (JObj upload_event)
      else if doc = bytes_strip ping_line then Inr (JObj ping_event)
      else Inl (JSONDecodeError ''Expecting value: line 1 column 1 (char 0)''))"

definition reply :: "int \<Rightarrow> bytes \<Rightarrow> exn + json \<Rightarrow> http_response" where
  "reply code body parsed =
     \<lparr>status_code = code, content = body, resp_text = body, resp_json = parsed\<rparr>"

definition not_json :: "exn + json" where
  "not_json = Inl (JSONDecodeError ''Expecting value: line 1 column 1 (char 0)'')"

text \<open>
  The sample store: a GET without headers gets \<open>public_status\<close>, a GET with headers
  gets \<open>private_status\<close>, a POST gets \<open>upload_reply\<close>.
\<close>

definition demo_service :: "int \<Rightarrow> int \<Rightarrow> http_response \<Rightarrow> http_request \<Rightarrow> http_response" where
  "demo_service public_status private_status upload_reply req =
     (case req of
        GET url hdrs \<Rightarrow>
          (if hdrs = [] then reply public_status ''hello'' not_json
           else reply private_status ''world'' not_json)
      | POST url hdrs body \<Rightarrow> upload_reply)"

definition gcloud_ok :: completed_process where
  "gcloud_ok = \<lparr>returncode = 0, proc_stdout = ''tok\<newline>'', proc_stderr = []\<rparr>"

definition gcloud_failed :: completed_process where
  "gcloud_failed = \<lparr>returncode = 1, proc_stdout = [], proc_stderr = ''ERROR: no credentials''\<rparr>"

definition demo_platform :: "(http_request \<Rightarrow> http_response) \<Rightarrow> completed_process \<Rightarrow> platform" where
  "demo_platform service gcloud =
     \<lparr>environ = [''GCS_BUCKET'' \<mapsto> ''bkt''], json_loads = demo_loads, py_str = (\<lambda>v. ''?''),
      requests = (\<lambda>t. service), subprocess_run = (\<lambda>t args. gcloud),
      open_error = (\<lambda>path. None), write_error = (\<lambda>path offset. None)\<rparr>"

definition demo :: platform where
  "demo = demo_platform (demo_service 200 200 (reply 200 ''{}'' (Inr (JObj [])))) gcloud_ok"

definition demo_private :: platform where
  "demo_private = demo_platform (demo_service 403 200 (reply 200 ''{}'' (Inr (JObj [])))) gcloud_ok"

definition demo_missing :: platform where
  "demo_missing = demo_platform (demo_service 404 200 (reply 200 ''{}'' (Inr (JObj [])))) gcloud_ok"

definition demo_denied :: platform where
  "demo_denied = demo_platform (demo_service 403 403 (reply 200 ''{}'' (Inr (JObj [])))) gcloud_ok"

definition demo_no_token :: platform where
  "demo_no_token = demo_platform (demo_service 403 200 (reply 200 ''{}'' (Inr (JObj [])))) gcloud_failed"

definition demo_plain_reply :: platform where
  "demo_plain_reply = demo_platform (demo_service 200 200 (reply 200 ''OK'' not_json)) gcloud_ok"

definition start_state :: state where
  "start_state = \<lparr>files = [''/tmp/f'' \<mapsto> ''0123456789''], stdout = [], stderr = [], calls = []\<rparr>"

section \<open>Properties\<close>

subsection \<open>Shared facts\<close>

lemma read_loop_parsed:
  assumes "bytes_strip line \<noteq> []" and "json_loads P (bytes_strip line) = Inr payload"
    and "process_event P payload s = (Inr (), s')"
  shows "read_loop P (line # rest) s = read_loop P rest s'"
  using assms by simp

lemma concat_iter_content: "0 < n \<Longrightarrow> concat (iter_content n body) = body"
proof (induction n body rule: iter_content.induct)
  case (1 chunk_size body)
  then show ?case
    by (subst iter_content.simps) simp
qed

text \<open>Every piece that \<open>iter_content\<close> yields is non-empty and at most \<open>chunk_size\<close> long.\<close>

lemma iter_content_bounded:
  "c \<in> set (iter_content n body) \<Longrightarrow> c \<noteq> [] \<and> length c \<le> n"
proof (induction n body rule: iter_content.induct)
  case (1 chunk_size body)
  from "1.prems" have ne: "chunk_size \<noteq> 0" "body \<noteq> []"
    and mem: "c = take chunk_size body \<or> c \<in> set (iter_content chunk_size (drop chunk_size body))"
    by (subst (asm) iter_content.simps, simp split: if_splits)+
  from mem show ?case
  proof
    assume "c = take chunk_size body"
    with ne show ?thesis by simp
  next
    assume "c \<in> set (iter_content chunk_size (drop chunk_size body))"
    with "1.IH" ne show ?thesis by simp
  qed
qed

text \<open>Writing never touches the output streams or the list of calls.\<close>

lemma file_write_frame:
  "file_write P path chunk s = (x, s') \<Longrightarrow>
     stdout s' = stdout s \<and> stderr s' = stderr s \<and> calls s' = calls s"
  by (auto simp: file_write_def Let_def split: option.splits)

lemma write_chunks_frame:
  "write_chunks P path chunks s = (x, s') \<Longrightarrow>
     stdout s' = stdout s \<and> stderr s' = stderr s \<and> calls s' = calls s"
proof (induction chunks arbitrary: s)
  case Nil
  then show ?case by simp
next
  case (Cons chunk chunks)
  show ?case
  proof (cases "chunk = []")
    case True
    with Cons show ?thesis by simp
  next
    case False
    obtain y t where fw: "file_write P path chunk s = (y, t)"
      by (cases "file_write P path chunk s")
    note fr = file_write_frame [OF fw]
    show ?thesis
    proof (cases y)
      case (Inl e)
      with Cons.prems False fw fr show ?thesis by simp
    next
      case (Inr u)
      with Cons.prems False fw have "write_chunks P path chunks t = (x, s')" by simp
      from Cons.IH [OF this] fr show ?thesis by simp
    qed
  qed
qed

lemma write_to_file_frame:
  "write_to_file P response path s = (x, s') \<Longrightarrow>
     stdout s' = stdout s \<and> stderr s' = stderr s \<and> calls s' = calls s"
proof -
  assume w: "write_to_file P response path s = (x, s')"
  obtain y t where ow: "open_wb P path s = (y, t)"
    by (cases "open_wb P path s")
  then have fr: "stdout t = stdout s \<and> stderr t = stderr s \<and> calls t = calls s"
    by (auto simp: open_wb_def split: if_splits option.splits)
  show ?thesis
  proof (cases y)
    case (Inl e)
    with w ow fr show ?thesis by (simp add: write_to_file_def)
  next
    case (Inr u)
    with w ow have "write_chunks P path (iter_content 8192 (content response)) t = (x, s')"
      by (simp add: write_to_file_def)
    from write_chunks_frame [OF this] fr show ?thesis by simp
  qed
qed

text \<open>When the platform lets every chunk through, the file ends as the chunks in a row.\<close>

lemma write_chunks_ok:
  "writes_ok P path (length old) chunks \<Longrightarrow>
     write_chunks P path chunks (s\<lparr>files := f(path \<mapsto> old)\<rparr>)
       = (Inr (), s\<lparr>files := f(path \<mapsto> old @ concat chunks)\<rparr>)"
proof (induction chunks arbitrary: old)
  case Nil
  show ?case by simp
next
  case (Cons chunk chunks)
  show ?case
  proof (cases "chunk = []")
    case True
    with Cons.prems Cons.IH [of old] show ?thesis by simp
  next
    case False
    with Cons.prems have ok: "write_error P path (length old) = None"
      and rest: "writes_ok P path (length (old @ chunk)) chunks"
      by simp_all
    from ok have "file_write P path chunk (s\<lparr>files := f(path \<mapsto> old)\<rparr>)
            = (Inr (), s\<lparr>files := f(path \<mapsto> old @ chunk)\<rparr>)"
      by (simp add: file_write_def)
    with Cons.IH [OF rest] False show ?thesis
      by (simp del: fun_upd_apply)
  qed
qed

text \<open>When it does not, the loop ends with the exception of the first refused write.\<close>

lemma write_chunks_refused:
  "\<not> writes_ok P path (length old) chunks \<Longrightarrow>
     isl (fst (write_chunks P path chunks (s\<lparr>files := f(path \<mapsto> old)\<rparr>)))"
proof (induction chunks arbitrary: old)
  case Nil
  then show ?case by simp
next
  case (Cons chunk chunks)
  show ?case
  proof (cases "chunk = []")
    case True
    with Cons.prems Cons.IH [of old] show ?thesis by simp
  next
    case False
    show ?thesis
    proof (cases "write_error P path (length old)")
      case (Some e)
      then have "file_write P path chunk (s\<lparr>files := f(path \<mapsto> old)\<rparr>)
              = (Inl e, s\<lparr>files := f(path \<mapsto> old)\<rparr>)"
        by (simp add: file_write_def)
      with False show ?thesis by (simp del: fun_upd_apply)
    next
      case None
      with Cons.prems False have rest: "\<not> writes_ok P path (length (old @ chunk)) chunks"
        by simp
      from None have "file_write P path chunk (s\<lparr>files := f(path \<mapsto> old)\<rparr>)
              = (Inr (), s\<lparr>files := f(path \<mapsto> old @ chunk)\<rparr>)"
        by (simp add: file_write_def)
      with Cons.IH [OF rest] False show ?thesis
        by (simp del: fun_upd_apply)
    qed
  qed
qed

lemma write_to_file_content:
  assumes "can_write P path (content response)"
  shows "write_to_file P response path s
           = (Inr (), s\<lparr>files := (files s)(path \<mapsto> content response)\<rparr>)"
proof -
  from assms have ne: "path \<noteq> []" and op: "open_error P path = None"
    and ok: "writes_ok P path (length ([] :: bytes)) (iter_content 8192 (content response))"
    by (simp_all add: can_write_def)
  from write_chunks_ok [OF ok, where s = s and f = "files s"] ne op show ?thesis
    by (simp add: write_to_file_def open_wb_def concat_iter_content del: fun_upd_apply)
qed

lemma write_to_file_refused:
  assumes "\<not> can_write P path (content response)"
  shows "isl (fst (write_to_file P response path s))"
proof (cases "path \<noteq> [] \<and> open_error P path = None")
  case True
  with assms have
    "\<not> writes_ok P path (length ([] :: bytes)) (iter_content 8192 (content response))"
    by (simp add: can_write_def)
  from write_chunks_refused [OF this, where s = s and f = "files s"] True show ?thesis
    by (simp add: write_to_file_def open_wb_def del: fun_upd_apply)
next
  case False
  then show ?thesis
    by (auto simp: write_to_file_def open_wb_def split: option.splits)
qed

text \<open>A platform that refuses no write to a path it opens lets every body be written there.\<close>

lemma writes_ok_always:
  "(\<And>offset. write_error P path offset = None) \<Longrightarrow> writes_ok P path start chunks"
  by (induction chunks arbitrary: start) simp_all

lemma can_write_always:
  assumes "path \<noteq> []" and "open_error P path = None"
    and "\<And>offset. write_error P path offset = None"
  shows "can_write P path body"
  using assms by (simp add: can_write_def writes_ok_always)

lemma write_to_file_snd:
  "stdout (snd (write_to_file P response path s)) = stdout s"
  "stderr (snd (write_to_file P response path s)) = stderr s"
  "calls (snd (write_to_file P response path s)) = calls s"
  using write_to_file_frame [of P response path s "fst (write_to_file P response path s)"
      "snd (write_to_file P response path s)"]
  by simp_all

text \<open>
  The two places where \<open>download\<close> writes and then answers: the answer follows when the
  platform lets the body be written, and the exception of the write leaves otherwise.
\<close>

lemma write_then:
  "(case write_to_file P response path s of
      (Inl e, s') \<Rightarrow> (Inl e, s')
    | (Inr u, s') \<Rightarrow> (Inr (), k s'))
   = (if can_write P path (content response)
      then (Inr (), k (s\<lparr>files := (files s)(path \<mapsto> content response)\<rparr>))
      else write_to_file P response path s)"
proof (cases "can_write P path (content response)")
  case True
  then show ?thesis
    by (simp add: write_to_file_content del: fun_upd_apply)
next
  case False
  from write_to_file_refused [OF this, of s] False show ?thesis
    by (cases "write_to_file P response path s") (auto simp: isl_def)
qed

text \<open>
  The temporary path of an oid of three or more characters without a slash (a hex digest
  is one): first two characters, next two, then the whole oid, under the object store.
\<close>

lemma get_temporary_path_sharded:
  assumes "CHR ''/'' \<notin> set oid" and "2 < length oid"
  shows "get_temporary_path oid
           = ''.git/lfs/objects/'' @ take 2 oid @ ''/'' @ take 2 (drop 2 oid) @ ''/'' @ oid"
proof -
  have a: "take 2 oid \<noteq> []" and b: "take 2 (drop 2 oid) \<noteq> []" and c: "oid \<noteq> []"
    using assms(2) by auto
  have "hd (take 2 oid) \<in> set oid"
    using a by (meson hd_in_set in_set_takeD)
  then have ha: "hd (take 2 oid) \<noteq> CHR ''/''"
    using assms(1) by metis
  have "last (take 2 oid) \<in> set oid"
    using a by (meson last_in_set in_set_takeD)
  then have la: "last (take 2 oid) \<noteq> CHR ''/''"
    using assms(1) by metis
  have "hd (take 2 (drop 2 oid)) \<in> set oid"
    using b by (meson hd_in_set in_set_takeD in_set_dropD)
  then have hb: "hd (take 2 (drop 2 oid)) \<noteq> CHR ''/''"
    using assms(1) by metis
  have "last (take 2 (drop 2 oid)) \<in> set oid"
    using b by (meson last_in_set in_set_takeD in_set_dropD)
  then have lb: "last (take 2 (drop 2 oid)) \<noteq> CHR ''/''"
    using assms(1) by metis
  have "hd oid \<in> set oid"
    using c by simp
  then have hc: "hd oid \<noteq> CHR ''/''"
    using assms(1) by metis
  have sub: "os_path_join (take 2 oid) [take 2 (drop 2 oid)]
               = take 2 oid @ ''/'' @ take 2 (drop 2 oid)"
    using a b la hb by (simp add: os_path_join_def join_step_def)
  show ?thesis
    unfolding get_temporary_path_def Let_def sub
    using a b c ha lb hc by (simp add: os_path_join_def join_step_def hd_append)
qed

lemma str_json_JStr: "str_json P (JStr x) = x"
  by (simp add: str_json_def)

lemma process_event_download:
  assumes "dict_get kvs ''event'' = JStr ''download''"
  shows "process_event P (JObj kvs) s =
           download P (environ P ''GCS_BUCKET'') (dict_get kvs ''oid'') (dict_get kvs ''path'')
             (s\<lparr>calls := calls s @ [Getenv ''GCS_BUCKET''],
                stderr := stderr s @
                  [''Processing event: download\<newline>'',
                   ''Handling download for OID: '' @ str_json P (dict_get kvs ''oid'') @ '', Path: ''
                     @ str_json P (dict_get kvs ''path'') @ ''\<newline>'']\<rparr>)"
  using assms
  by (simp add: process_event_def handle_download_def os_getenv_def stderr_write_def Let_def
      str_json_JStr)

lemma process_event_upload:
  assumes "dict_get kvs ''event'' = JStr ''upload''"
  shows "process_event P (JObj kvs) s =
           upload P (environ P ''GCS_BUCKET'') (dict_get kvs ''oid'') (dict_get kvs ''path'')
             (s\<lparr>calls := calls s @ [Getenv ''GCS_BUCKET''],
                stderr := stderr s @
                  [''Processing event: upload\<newline>'',
                   ''Handling upload for OID: '' @ str_json P (dict_get kvs ''oid'') @ '', Path: ''
                     @ str_json P (dict_get kvs ''path'') @ ''\<newline>'']\<rparr>)"
  using assms
  by (simp add: process_event_def handle_upload_def os_getenv_def stderr_write_def Let_def
      str_json_JStr)

lemmas download_unfold =
  download_def http_call_def get_access_token_def Let_def str_json_JStr
  stdout_write_json_def write_then write_to_file_snd download_complete_def download_error_def

lemma env_reads_download: "env_reads (snd (download P bucket object_name destination_path s)) = env_reads s"
  by (simp add: download_unfold env_reads_def is_getenv_def split: json.splits)

lemmas upload_unfold =
  upload_def http_call_def get_access_token_def Let_def stderr_write_def
  stdout_write_json_def os_path_getsize_def upload_complete_def

lemma env_reads_upload: "env_reads (snd (upload P bucket object_name file_path s)) = env_reads s"
  by (simp add: upload_unfold env_reads_def is_getenv_def
      split: json.splits option.splits sum.splits)

lemma env_reads_init: "env_reads (snd (handle_init P kvs s)) = env_reads s"
  by (simp add: handle_init_def env_reads_def stderr_write_def stdout_write_json_def)

lemma env_reads_terminate: "env_reads (snd (handle_terminate P kvs s)) = env_reads s"
  by (simp add: handle_terminate_def env_reads_def stderr_write_def stdout_write_json_def)

lemmas demo_defs =
  demo_def demo_platform_def demo_loads_def demo_service_def reply_def not_json_def
  gcloud_ok_def gcloud_failed_def start_state_def
  terminate_line_def download_line_def upload_line_def ping_line_def
  terminate_event_def download_event_def upload_event_def ping_event_def
  bytes_strip_def strip_with_def bytes_space_def

subsection \<open>Blank lines\<close>

lemma bytes_strip_blank: "list_all bytes_space line \<Longrightarrow> bytes_strip line = []"
  by (auto simp: bytes_strip_def strip_with_def list_all_iff dest: set_dropWhileD)

text \<open>
  Claim C10. A line that is empty or holds only whitespace is skipped: the loop goes on
  with the next line from the same state, so nothing was written to standard output or
  standard error and nothing else happened; this holds for every platform, whatever its
  JSON parser would do with the line, and the line alone ends the loop normally.
\<close>

theorem blank_line_skipped:
  assumes "list_all bytes_space line"
  shows "read_loop P (line # rest) s = read_loop P rest s \<and> read_loop P [line] s = (Inr (), s)"
  using bytes_strip_blank [OF assms] by simp

theorem blank_line_skipped_witness:
  "list_all bytes_space '' \<newline>''
   \<and> read_loop demo ['' \<newline>'', terminate_line] start_state
       = read_loop demo [terminate_line] start_state
   \<and> read_loop demo ['' \<newline>''] start_state = (Inr (), start_state)"
  using blank_line_skipped [of "'' \<newline>''" demo "[terminate_line]" start_state]
  by (simp add: bytes_space_def)

subsection \<open>The exit status\<close>

text \<open>
  Claim C4. The claim says the process exits with code 0 when standard input ends.
  In the source the statement after the loop, \<^verbatim>\<open>sys.stderr("finished\n")\<close>, raises, so an
  exception reaches the top on every run: the exit status is 1 whatever the input, the
  empty input included.
\<close>

theorem main_exit_code_at_end_of_input:
  "exit_code (main P lines s) = 1 \<and> fst (main P [] s) = Inl TypeError"
  by (simp add: exit_code_def main_def handle_request_def split: prod.splits sum.splits)

subsection \<open>Dispatch and the read loop\<close>

text \<open>
  Claim C9. A parsed event (a JSON object) whose \<^verbatim>\<open>event\<close> field is none of
  \<^verbatim>\<open>init\<close>, \<^verbatim>\<open>upload\<close>, \<^verbatim>\<open>download\<close>, \<^verbatim>\<open>terminate\<close> (a missing field reads as
  \<^verbatim>\<open>None\<close>) leaves standard output as it was, writes two diagnostic lines to standard
  error and returns normally. (A parsed value that is not an object has no fields:
  \<^verbatim>\<open>payload.get\<close> raises \<open>AttributeError\<close>, in \<open>process_event\<close> above.) The loop goes on: a run over this line alone ends normally
  in the state the event left, and a run over this line and further lines is the run
  over the further lines from that state. In the closed theorem the line after it, a
  terminate event, is answered.
\<close>

theorem unrecognized_event_logged_only:
  fixes P kvs s
  defines "event \<equiv> dict_get kvs ''event''"
  defines "s' \<equiv> s\<lparr>stderr := stderr s @
             [''Processing event: '' @ str_json P event @ ''\<newline>'',
              ''Unsupported event: '' @ str_json P event @ ''\<newline>'']\<rparr>"
  assumes "event \<notin> {JStr ''init'', JStr ''upload'', JStr ''download'', JStr ''terminate''}"
    and "bytes_strip line \<noteq> []"
    and "json_loads P (bytes_strip line) = Inr (JObj kvs)"
  shows "process_event P (JObj kvs) s = (Inr (), s')
         \<and> read_loop P [line] s = (Inr (), s')
         \<and> read_loop P (line # rest) s = read_loop P rest s'"
proof -
  have ev: "process_event P (JObj kvs) s = (Inr (), s')"
    using assms(3) by (simp add: process_event_def event_def s'_def stderr_write_def Let_def)
  with assms(4,5) show ?thesis
    by (simp add: read_loop_parsed)
qed

theorem unrecognized_event_logged_only_witness:
  "process_event demo (JObj ping_event) start_state
     = (Inr (), start_state\<lparr>stderr := [''Processing event: ping\<newline>'', ''Unsupported event: ping\<newline>'']\<rparr>)
   \<and> read_loop demo [ping_line] start_state
     = (Inr (), start_state\<lparr>stderr := [''Processing event: ping\<newline>'', ''Unsupported event: ping\<newline>'']\<rparr>)
   \<and> fst (read_loop demo [ping_line, terminate_line] start_state) = Inr ()
   \<and> stdout (snd (read_loop demo [ping_line, terminate_line] start_state))
     = [JObj [(''event'', JStr ''terminate'')]]
   \<and> stderr (snd (read_loop demo [ping_line, terminate_line] start_state))
     = [''Processing event: ping\<newline>'', ''Unsupported event: ping\<newline>'',
        ''Processing event: terminate\<newline>'', ''Handling terminate event\<newline>'',
        ''Terminate event processed\<newline>'']"
  using unrecognized_event_logged_only [of ping_event ping_line demo start_state "[terminate_line]"]
  by (simp add: demo_defs dict_get_def str_json_def process_event_def handle_terminate_def
      stderr_write_def stdout_write_json_def)

text \<open>
  Claim C2, as the source has it. A terminate event writes the one line
  \<^verbatim>\<open>{"event": "terminate"}\<close> to standard output (and three diagnostics to standard error).
  The handler does not exit (its \<^verbatim>\<open>sys.exit(0)\<close> is commented out) and the loop has no
  stop condition for it: reading goes on with the next line. A run over this line alone
  ends normally in the state the event left, and a run over this line and further lines
  is the run over the further lines from that state. In the closed theorem the line
  after the terminate event, an unrecognised event, is handled.
\<close>

theorem terminate_answered_loop_goes_on:
  fixes P kvs s
  defines "s' \<equiv> s\<lparr>stdout := stdout s @ [JObj [(''event'', JStr ''terminate'')]],
                    stderr := stderr s @
                      [''Processing event: terminate\<newline>'', ''Handling terminate event\<newline>'',
                       ''Terminate event processed\<newline>'']\<rparr>"
  assumes "dict_get kvs ''event'' = JStr ''terminate''"
    and "bytes_strip line \<noteq> []"
    and "json_loads P (bytes_strip line) = Inr (JObj kvs)"
  shows "process_event P (JObj kvs) s = (Inr (), s')
         \<and> read_loop P [line] s = (Inr (), s')
         \<and> read_loop P (line # rest) s = read_loop P rest s'"
proof -
  have ev: "process_event P (JObj kvs) s = (Inr (), s')"
    using assms(2)
    by (simp add: process_event_def handle_terminate_def s'_def stderr_write_def
        stdout_write_json_def str_json_def)
  with assms(3,4) show ?thesis
    by (simp add: read_loop_parsed)
qed

theorem terminate_answered_loop_goes_on_witness:
  "read_loop demo [terminate_line] start_state
     = (Inr (), start_state\<lparr>stdout := [JObj [(''event'', JStr ''terminate'')]],
                           stderr := [''Processing event: terminate\<newline>'', ''Handling terminate event\<newline>'',
                                      ''Terminate event processed\<newline>'']\<rparr>)
   \<and> fst (read_loop demo [terminate_line, ping_line] start_state) = Inr ()
   \<and> stdout (snd (read_loop demo [terminate_line, ping_line] start_state))
     = [JObj [(''event'', JStr ''terminate'')]]
   \<and> stderr (snd (read_loop demo [terminate_line, ping_line] start_state))
     = [''Processing event: terminate\<newline>'', ''Handling terminate event\<newline>'',
        ''Terminate event processed\<newline>'',
        ''Processing event: ping\<newline>'', ''Unsupported event: ping\<newline>'']"
  using terminate_answered_loop_goes_on [of terminate_event terminate_line demo start_state "[ping_line]"]
  by (simp add: demo_defs dict_get_def str_json_def process_event_def stderr_write_def)

text \<open>
  Claim C2 as stated says that no input is consumed after a terminate event. Two
  terminate lines in a row are both answered.
\<close>

theorem input_after_terminate_is_processed:
  "stdout (snd (main demo [terminate_line, terminate_line] start_state))
     = [JObj [(''event'', JStr ''terminate'')], JObj [(''event'', JStr ''terminate'')]]"
  by (simp add: main_def handle_request_def demo_defs process_event_def dict_get_def
      handle_terminate_def stderr_write_def stdout_write_json_def str_json_def)

text \<open>
  Claim C8, as the source has it. A line that is not blank and that \<^verbatim>\<open>json.loads\<close>
  rejects ends the loop: on \<^verbatim>\<open>JSONDecodeError\<close> the loop breaks after one diagnostic, any
  other exception of the parser leaves the loop as it is. The remaining lines are not
  read, and standard output is unchanged.
\<close>

theorem malformed_line_ends_loop:
  assumes "bytes_strip line \<noteq> []" and "json_loads P (bytes_strip line) = Inl e"
  shows "read_loop P (line # rest) s =
           (case e of
              JSONDecodeError msg \<Rightarrow>
                (Inr (), s\<lparr>stderr := stderr s @ [''Error decoding JSON: '' @ msg @ ''\<newline>'']\<rparr>)
            | _ \<Rightarrow> (Inl e, s))
         \<and> stdout (snd (read_loop P (line # rest) s)) = stdout s"
  using assms by (simp add: decode_failed_def stderr_write_def split: exn.splits)

theorem malformed_line_ends_loop_witness:
  "read_loop demo [''not json\<newline>'', terminate_line] start_state
     = (Inr (), start_state\<lparr>stderr :=
          [''Error decoding JSON: Expecting value: line 1 column 1 (char 0)\<newline>'']\<rparr>)"
  using malformed_line_ends_loop [of "''not json\<newline>''" demo _ "[terminate_line]" start_state]
  by (simp add: demo_defs)

text \<open>
  Claim C8 as stated covers every line that is not valid JSON. A blank line is not valid
  JSON either, and the loop skips it: the line after it is answered.
\<close>

theorem blank_line_is_not_json_and_loop_goes_on:
  "json_loads demo (bytes_strip ''\<newline>'') = Inl (JSONDecodeError ''Expecting value: line 1 column 1 (char 0)'')
   \<and> stdout (snd (read_loop demo [''\<newline>'', terminate_line] start_state))
       = [JObj [(''event'', JStr ''terminate'')]]"
  by (simp add: demo_defs process_event_def dict_get_def
      handle_terminate_def stderr_write_def stdout_write_json_def str_json_def)

subsection \<open>Download\<close>

text \<open>
  In the statements below the responses are the ones the platform gives at the moment of
  each call: the handler reads the environment first, so the public GET is the call after
  it, the credential tool the next one, and the authenticated GET the one after that.
\<close>

text \<open>
  Claim C1. The claim says that after a public GET with status 200 the response line
  carries the temporary sharded path. In the source the body is written to the temporary
  path \<open>get_temporary_path oid\<close>, in chunks of 8192 bytes, and the file there holds
  exactly the body; but the \<^verbatim>\<open>path\<close> field of the response is the \<^verbatim>\<open>path\<close> field of the
  event, which is not where the file is. When the platform refuses the write, the
  exception leaves the handler and there is no response line at all. The closed theorem
  after it runs the download
  event of oid \<^verbatim>\<open>ab12cd34\<close> and path \<^verbatim>\<open>/tmp/out\<close>: the response names \<^verbatim>\<open>/tmp/out\<close>, the
  body is in \<^verbatim>\<open>.git/lfs/objects/ab/12/ab12cd34\<close>, and no file \<^verbatim>\<open>/tmp/out\<close> exists.
\<close>

theorem download_public_200_reports_caller_path:
  fixes P kvs s oid
  defines "bucket \<equiv> str_env (environ P ''GCS_BUCKET'')"
  defines "response \<equiv> requests P (Suc (length (calls s))) (GET (public_url bucket oid) [])"
  defines "r \<equiv> process_event P (JObj kvs) s"
  assumes "dict_get kvs ''event'' = JStr ''download''"
    and "dict_get kvs ''oid'' = JStr oid"
    and "status_code response = 200"
  shows "(can_write P (get_temporary_path oid) (content response) \<longrightarrow>
            fst r = Inr ()
            \<and> stdout (snd r) = stdout s @
                 [JObj [(''event'', JStr ''complete''), (''oid'', JStr oid),
                        (''path'', dict_get kvs ''path'')]]
            \<and> files (snd r) = (files s)(get_temporary_path oid \<mapsto> content response))
         \<and> (\<not> can_write P (get_temporary_path oid) (content response) \<longrightarrow>
               isl (fst r) \<and> stdout (snd r) = stdout s)"
  using assms(5,6) unfolding r_def process_event_download [OF assms(4)] response_def bucket_def
  by (simp add: download_unfold write_to_file_refused)

theorem download_public_200_reports_caller_path_witness:
  "fst (process_event demo (JObj download_event) start_state) = Inr ()
   \<and> stdout (snd (process_event demo (JObj download_event) start_state))
       = [JObj [(''event'', JStr ''complete''), (''oid'', JStr ''ab12cd34''),
                (''path'', JStr ''/tmp/out'')]]
   \<and> files (snd (process_event demo (JObj download_event) start_state))
       = [''/tmp/f'' \<mapsto> ''0123456789'', ''.git/lfs/objects/ab/12/ab12cd34'' \<mapsto> ''hello'']"
  using download_public_200_reports_caller_path [of download_event "''ab12cd34''" demo start_state]
  by (simp add: demo_defs dict_get_def get_temporary_path_def os_path_join_def join_step_def
      can_write_def iter_content.simps)

text \<open>
  Claim C5. A download event with string oid and path, whose public GET returns 403,
  whose credential tool exits with 0 and whose authenticated GET (header
  \<^verbatim>\<open>Authorization: Bearer <token>\<close>, the token being the tool's output stripped) returns
  200, and whose path the platform lets the body be written to (\<^verbatim>\<open>open\<close> and every
  write succeed): the handler returns normally, the one response line carries the path
  of the event, and the file at that path holds exactly the body of the authenticated
  response.
\<close>

theorem download_authenticated_200_writes_caller_path:
  fixes P kvs s oid path
  defines "bucket \<equiv> str_env (environ P ''GCS_BUCKET'')"
  defines "response \<equiv> requests P (Suc (length (calls s))) (GET (public_url bucket oid) [])"
  defines "gcloud \<equiv> subprocess_run P (Suc (Suc (length (calls s)))) gcloud_args"
  defines "hdrs \<equiv> [(''Authorization'', ''Bearer '' @ str_strip (proc_stdout gcloud))]"
  defines "response2 \<equiv> requests P (Suc (Suc (Suc (length (calls s))))) (GET (private_url bucket oid) hdrs)"
  defines "r \<equiv> process_event P (JObj kvs) s"
  assumes "dict_get kvs ''event'' = JStr ''download''"
    and "dict_get kvs ''oid'' = JStr oid"
    and "dict_get kvs ''path'' = JStr path"
    and "status_code response = 403"
    and "returncode gcloud = 0"
    and "status_code response2 = 200"
    and "can_write P path (content response2)"
  shows "fst r = Inr ()
         \<and> stdout (snd r) = stdout s @
              [JObj [(''event'', JStr ''complete''), (''oid'', JStr oid), (''path'', JStr path)]]
         \<and> files (snd r) = (files s)(path \<mapsto> content response2)
         \<and> new_calls s (snd r) =
              [Getenv ''GCS_BUCKET'', Request (GET (public_url bucket oid) []), Run gcloud_args,
               Request (GET (private_url bucket oid) hdrs)]"
  using assms(8-13)
  unfolding r_def process_event_download [OF assms(7)] response_def response2_def bucket_def
    gcloud_def hdrs_def
  by (simp add: download_unfold new_calls_def)

theorem download_authenticated_200_writes_caller_path_witness:
  "fst (process_event demo_private
          (JObj download_event) start_state) = Inr ()
   \<and> stdout (snd (process_event demo_private
          (JObj download_event) start_state))
       = [JObj [(''event'', JStr ''complete''), (''oid'', JStr ''ab12cd34''),
                (''path'', JStr ''/tmp/out'')]]
   \<and> files (snd (process_event demo_private
          (JObj download_event) start_state))
       = [''/tmp/f'' \<mapsto> ''0123456789'', ''/tmp/out'' \<mapsto> ''world'']"
  using download_authenticated_200_writes_caller_path
    [of download_event "''ab12cd34''" "''/tmp/out''"
        demo_private start_state]
  by (simp add: demo_defs demo_private_def dict_get_def gcloud_args_def can_write_def
      iter_content.simps)

text \<open>
  Claim C7, as the source has it. During the download of a string oid, an authenticated
  GET is issued if and only if the public GET returns 403 and the credential tool exits
  with 0; it is then the GET of the private URL with the bearer header. A public
  status other than 200 and 403, or a status other than 200 of the authenticated GET,
  raises \<open>RuntimeError\<close> with the status code and the text of that response; a failing
  credential tool raises \<open>RuntimeError\<close> with the tool's diagnostic. In all three cases
  standard output is unchanged.
\<close>

theorem download_fallback_and_failures:
  fixes P kvs s oid
  defines "bucket \<equiv> str_env (environ P ''GCS_BUCKET'')"
  defines "response \<equiv> requests P (Suc (length (calls s))) (GET (public_url bucket oid) [])"
  defines "gcloud \<equiv> subprocess_run P (Suc (Suc (length (calls s)))) gcloud_args"
  defines "hdrs \<equiv> [(''Authorization'', ''Bearer '' @ str_strip (proc_stdout gcloud))]"
  defines "response2 \<equiv> requests P (Suc (Suc (Suc (length (calls s))))) (GET (private_url bucket oid) hdrs)"
  defines "r \<equiv> process_event P (JObj kvs) s"
  assumes "dict_get kvs ''event'' = JStr ''download''"
    and "dict_get kvs ''oid'' = JStr oid"
  shows "(list_ex is_authenticated_get (new_calls s (snd r))
            \<longleftrightarrow> status_code response = 403 \<and> returncode gcloud = 0)
         \<and> (status_code response = 403 \<and> returncode gcloud = 0 \<longrightarrow>
               Request (GET (private_url bucket oid) hdrs) \<in> set (new_calls s (snd r)))
         \<and> (status_code response \<noteq> 200 \<and> status_code response \<noteq> 403 \<longrightarrow>
               fst r = Inl (RuntimeError (''Error downloading file: ''
                              @ str_int (status_code response) @ '' '' @ resp_text response))
               \<and> stdout (snd r) = stdout s)
         \<and> (status_code response = 403 \<and> returncode gcloud = 0 \<and> status_code response2 \<noteq> 200 \<longrightarrow>
               fst r = Inl (RuntimeError (''Error downloading file: ''
                              @ str_int (status_code response2) @ '' '' @ resp_text response2))
               \<and> stdout (snd r) = stdout s)
         \<and> (status_code response = 403 \<and> returncode gcloud \<noteq> 0 \<longrightarrow>
               fst r = Inl (RuntimeError (''Error fetching access token: '' @ proc_stderr gcloud))
               \<and> stdout (snd r) = stdout s)"
  using assms(8)
  unfolding r_def process_event_download [OF assms(7)] response_def response2_def bucket_def
    gcloud_def hdrs_def
  by (simp add: download_unfold new_calls_def is_authenticated_get_def split: json.splits)


theorem download_fallback_and_failures_witness:
  "fst (process_event demo_missing (JObj download_event) start_state)
     = Inl (RuntimeError ''Error downloading file: 404 hello'')
   \<and> stdout (snd (process_event demo_missing (JObj download_event) start_state)) = []
   \<and> \<not> list_ex is_authenticated_get
         (new_calls start_state (snd (process_event demo_missing (JObj download_event) start_state)))
   \<and> fst (process_event demo_denied (JObj download_event) start_state)
     = Inl (RuntimeError ''Error downloading file: 403 world'')
   \<and> stdout (snd (process_event demo_denied (JObj download_event) start_state)) = []
   \<and> list_ex is_authenticated_get
         (new_calls start_state (snd (process_event demo_denied (JObj download_event) start_state)))"
  using download_fallback_and_failures
      [where kvs = download_event and oid = "''ab12cd34''" and P = demo_missing and s = start_state]
    download_fallback_and_failures
      [where kvs = download_event and oid = "''ab12cd34''" and P = demo_denied and s = start_state]
  by (simp add: demo_defs demo_missing_def demo_denied_def dict_get_def gcloud_args_def
      str_int_def str_nat.simps digit_char_def)

text \<open>
  Claim C7 as stated has the authenticated GET attempted whenever the public GET returns
  403. When the credential tool fails, the download raises before any second request.
  And a download event without an oid, whose public GET returns 404, raises \<open>TypeError\<close>
  from the slice of the oid: the error carries no status.
\<close>

theorem public_403_without_token_no_authenticated_get:
  "status_code (requests demo_no_token 1 (GET (public_url ''bkt'' ''ab12cd34'') [])) = 403
   \<and> calls (snd (process_event demo_no_token (JObj download_event) start_state))
       = [Getenv ''GCS_BUCKET'', Request (GET (public_url ''bkt'' ''ab12cd34'') []), Run gcloud_args]
   \<and> \<not> list_ex is_authenticated_get
         (calls (snd (process_event demo_no_token (JObj download_event) start_state)))
   \<and> fst (process_event demo_no_token (JObj download_event) start_state)
       = Inl (RuntimeError ''Error fetching access token: ERROR: no credentials'')
   \<and> status_code (requests demo_missing 1 (GET (public_url ''bkt'' ''None'') [])) = 404
   \<and> calls (snd (process_event demo_missing (JObj download_event_without_oid) start_state))
       = [Getenv ''GCS_BUCKET'', Request (GET (public_url ''bkt'' ''None'') [])]
   \<and> fst (process_event demo_missing (JObj download_event_without_oid) start_state)
       = Inl TypeError"
  by (simp add: demo_defs demo_no_token_def demo_missing_def download_event_without_oid_def
      dict_get_def process_event_download download_def http_call_def get_access_token_def
      Let_def str_json_def str_env_def is_authenticated_get_def)

subsection \<open>The environment\<close>

text \<open>
  Claim C3, as the source has it. \<^verbatim>\<open>GCS_BUCKET\<close> is read by the handlers of upload and
  download events, once for each such event, when the event is handled; the handling of
  any other event reads nothing from the environment, and neither does the main block
  around the loop (a run over an empty input reads nothing).
\<close>

theorem bucket_read_by_transfer_handlers:
  "env_reads (snd (process_event P (JObj kvs) s))
     = env_reads s @
         (if dict_get kvs ''event'' = JStr ''upload'' \<or> dict_get kvs ''event'' = JStr ''download''
          then [Getenv ''GCS_BUCKET''] else [])
   \<and> env_reads (snd (main P [] s)) = env_reads s"
proof -
  have start: "env_reads (snd (main P [] s)) = env_reads s"
    by (simp add: main_def handle_request_def env_reads_def stderr_write_def)
  have ev: "env_reads (snd (process_event P (JObj kvs) s))
     = env_reads s @
         (if dict_get kvs ''event'' = JStr ''upload'' \<or> dict_get kvs ''event'' = JStr ''download''
          then [Getenv ''GCS_BUCKET''] else [])"
  proof -
    consider (init) "dict_get kvs ''event'' = JStr ''init''"
      | (upload) "dict_get kvs ''event'' = JStr ''upload''"
      | (download) "dict_get kvs ''event'' = JStr ''download''"
      | (terminate) "dict_get kvs ''event'' = JStr ''terminate''"
      | (other) "dict_get kvs ''event'' \<notin> {JStr ''init'', JStr ''upload'', JStr ''download'', JStr ''terminate''}"
      by blast
    then show ?thesis
    proof cases
      case init
      then show ?thesis
        by (simp add: process_event_def Let_def env_reads_init)
           (simp add: env_reads_def stderr_write_def)
    next
      case upload
      then show ?thesis
        by (simp add: process_event_upload env_reads_upload)
           (simp add: env_reads_def is_getenv_def)
    next
      case download
      then show ?thesis
        by (simp add: process_event_download env_reads_download)
           (simp add: env_reads_def is_getenv_def)
    next
      case terminate
      then show ?thesis
        by (simp add: process_event_def Let_def env_reads_terminate)
           (simp add: env_reads_def stderr_write_def)
    next
      case other
      then show ?thesis
        by (simp add: process_event_def Let_def env_reads_def stderr_write_def)
    qed
  qed
  from ev start show ?thesis by simp
qed

text \<open>
  Claim C3 as stated has one read, at startup, and none in a handler. A run over a
  download and an upload event reads the variable twice; a run over no event never
  reads it.
\<close>

theorem bucket_read_once_per_transfer_event:
  "env_reads (snd (main demo [download_line, upload_line] start_state))
     = [Getenv ''GCS_BUCKET'', Getenv ''GCS_BUCKET'']
   \<and> calls (snd (main demo [] start_state)) = []"
  by (simp add: main_def handle_request_def demo_defs dict_get_def process_event_download
      process_event_upload download_unfold upload_def stderr_write_def os_path_getsize_def
      upload_complete_def env_reads_def is_getenv_def can_write_def iter_content.simps
      get_temporary_path_def os_path_join_def join_step_def)

subsection \<open>Upload\<close>

text \<open>
  Claim C6, as the source has it. An upload event whose path names an existing file,
  whose credential tool exits with 0, and whose POST returns 200 with a body that
  \<^verbatim>\<open>response.json()\<close> parses: the handler returns normally and the one response line is
  \<^verbatim>\<open>{"event": "complete", "oid": oid, "size": n}\<close> with \<open>n\<close> the number of bytes of the
  local file, whatever the response holds. The file is sent as the body of the POST and
  is left as it was.
\<close>

theorem upload_200_reports_local_size:
  fixes P kvs s path file_data parsed
  defines "bucket \<equiv> str_env (environ P ''GCS_BUCKET'')"
  defines "oid \<equiv> dict_get kvs ''oid''"
  defines "gcloud \<equiv> subprocess_run P (Suc (length (calls s))) gcloud_args"
  defines "hdrs \<equiv> [(''Content-Type'', ''application/octet-stream''),
                    (''Authorization'', ''Bearer '' @ str_strip (proc_stdout gcloud))]"
  defines "response \<equiv> requests P (Suc (Suc (length (calls s))))
                         (POST (upload_url bucket (str_json P oid)) hdrs file_data)"
  defines "r \<equiv> process_event P (JObj kvs) s"
  assumes "dict_get kvs ''event'' = JStr ''upload''"
    and "dict_get kvs ''path'' = JStr path"
    and "files s path = Some file_data"
    and "returncode gcloud = 0"
    and "status_code response = 200"
    and "resp_json response = Inr parsed"
  shows "fst r = Inr ()
         \<and> stdout (snd r) = stdout s @
              [JObj [(''event'', JStr ''complete''), (''oid'', oid),
                     (''size'', JInt (int (length file_data)))]]
         \<and> files (snd r) = files s
         \<and> new_calls s (snd r) =
              [Getenv ''GCS_BUCKET'', Run gcloud_args,
               Request (POST (upload_url bucket (str_json P oid)) hdrs file_data)]"
  using assms(8-12)
  unfolding r_def process_event_upload [OF assms(7)] response_def bucket_def
    gcloud_def hdrs_def oid_def
  by (simp add: upload_unfold new_calls_def)

theorem upload_200_reports_local_size_witness:
  "fst (process_event demo (JObj upload_event) start_state) = Inr ()
   \<and> stdout (snd (process_event demo (JObj upload_event) start_state))
       = [JObj [(''event'', JStr ''complete''), (''oid'', JStr ''x''), (''size'', JInt 10)]]"
  using upload_200_reports_local_size
      [where kvs = upload_event and path = "''/tmp/f''" and P = demo and s = start_state
         and file_data = "''0123456789''" and parsed = "JObj []"]
  by (simp add: demo_defs dict_get_def gcloud_args_def)

text \<open>
  Claim C6 as stated covers every upload that the store answers with 200. The source
  logs \<^verbatim>\<open>response.json()\<close> before it writes the response line, so a 200 whose body is not
  JSON raises there and no response line is written.
\<close>

theorem upload_200_with_plain_body_gets_no_response:
  "calls (snd (process_event demo_plain_reply (JObj upload_event) start_state))
     = [Getenv ''GCS_BUCKET'', Run gcloud_args,
        Request (POST (upload_url ''bkt'' ''x'')
                   [(''Content-Type'', ''application/octet-stream''), (''Authorization'', ''Bearer tok'')]
                   ''0123456789'')]
   \<and> status_code (requests demo_plain_reply 2
         (POST (upload_url ''bkt'' ''x'')
            [(''Content-Type'', ''application/octet-stream''), (''Authorization'', ''Bearer tok'')]
            ''0123456789'')) = 200
   \<and> stdout (snd (process_event demo_plain_reply (JObj upload_event) start_state)) = []
   \<and> fst (process_event demo_plain_reply (JObj upload_event) start_state)
       = Inl (JSONDecodeError ''Expecting value: line 1 column 1 (char 0)'')"
  by (simp add: demo_defs demo_plain_reply_def dict_get_def process_event_upload upload_unfold
      str_env_def str_json_JStr str_strip_def str_space_def)

end
